theory Spec2Isabelle
  imports Main "HOL-Library.Multiset"
begin

section \<open>The timetable normaliser of versions/v2/timetable.py\<close>

text \<open>
  The theory embeds the functions of \<^verbatim>\<open>versions/v2/timetable.py\<close>: the name
  resolvers \<^verbatim>\<open>prep_subject\<close>, \<^verbatim>\<open>prep_subject_short\<close>, \<^verbatim>\<open>prep_group\<close>,
  \<^verbatim>\<open>prep_teacher\<close>, \<^verbatim>\<open>prep_classroom\<close>, the cache rule \<^verbatim>\<open>trule\<close> and the
  normaliser \<^verbatim>\<open>get_timetable_data\<close>.

  Conventions of the embedding.
  \<^item> A Python \<^verbatim>\<open>str\<close> is a \<open>string\<close>; a character outside ASCII is carried as its
    UTF-8 bytes. \<^verbatim>\<open>str.lower\<close>, \<^verbatim>\<open>str.isupper\<close> and the classes \<^verbatim>\<open>[a-zA-Z]\<close>,
    \<^verbatim>\<open>[1-4]\<close>, \<^verbatim>\<open>\d\<close> act on the ASCII letters and digits; the case mapping of
    letters beyond ASCII and the decimal digits of other scripts are not part of the
    model. Where the source is quoted, such a character is written \<^verbatim>\<open>\uXXXX\<close>.
  \<^item> An exception is a value of type \<open>error\<close>; a function that can raise returns
    \<open>error + 'a\<close>, with \<open>Inl\<close> for the exception.
  \<^item> The lookup tables (\<^verbatim>\<open>get_data()\<close>, \<^verbatim>\<open>get_overrides(name)\<close>,
    \<^verbatim>\<open>overrides.parse()\<close>) are defined outside this file of the repository and are
    parameters of the model.
\<close>

datatype error = KeyError | ValueError | IndexError

subsection \<open>Strings\<close>

definition ascii_upper :: string where
  "ascii_upper = ''ABCDEFGHIJKLMNOPQRSTUVWXYZ''"

definition ascii_lower :: string where
  "ascii_lower = ''abcdefghijklmnopqrstuvwxyz''"

definition lower_char :: "char \<Rightarrow> char" where
  "lower_char c = (case map_of (zip ascii_upper ascii_lower) c of Some l \<Rightarrow> l | None \<Rightarrow> c)"

text \<open>\<^verbatim>\<open>x.lower()\<close>\<close>

definition lower :: "string \<Rightarrow> string" where
  "lower s = map lower_char s"

text \<open>\<^verbatim>\<open>x.replace("_", " ")\<close>\<close>

definition replace_underscore :: "string \<Rightarrow> string" where
  "replace_underscore s = map (\<lambda>c. if c = CHR ''_'' then CHR '' '' else c) s"

text \<open>\<^verbatim>\<open>x.isupper()\<close>: some cased character, and no lowercase one.\<close>

definition isupper :: "string \<Rightarrow> bool" where
  "isupper s = (list_ex (\<lambda>c. c \<in> set ascii_upper) s \<and> list_all (\<lambda>c. c \<notin> set ascii_lower) s)"

text \<open>\<^verbatim>\<open>def canonicalize(x): return x.replace("_", " ").lower()\<close>\<close>

definition canonicalize :: "string \<Rightarrow> string" where
  "canonicalize x = lower (replace_underscore x)"

subsection \<open>Decimal numbers\<close>

definition is_digit :: "char \<Rightarrow> bool" where
  "is_digit c = (c \<in> set ''0123456789'')"

definition digit_val :: "char \<Rightarrow> nat" where
  "digit_val c = of_char c - 48"

text \<open>
  \<^verbatim>\<open>int(s)\<close> on a string of decimal digits (the capture of \<^verbatim>\<open>\d+\<close>). The limit
  that recent versions of Python put on the number of digits is not modelled.
\<close>

definition int_of_digits :: "string \<Rightarrow> nat" where
  "int_of_digits s = foldl (\<lambda>n c. 10 * n + digit_val c) 0 s"

text \<open>The text of a natural number in an f-string: decimal, no leading zero.\<close>

fun str_of_nat :: "nat \<Rightarrow> string" where
  "str_of_nat n =
     (if n < 10 then [''0123456789'' ! n]
      else str_of_nat (n div 10) @ [''0123456789'' ! (n mod 10)])"

declare str_of_nat.simps [simp del]

subsection \<open>The schema records read by the resolvers\<close>

text \<open>
  \<^verbatim>\<open>versions.v2.schema\<close> is not part of this file. The resolvers read \<^verbatim>\<open>name\<close> and
  \<^verbatim>\<open>short\<close> of a subject and \<^verbatim>\<open>short\<close> of a teacher and of a classroom; a record
  that tests false (\<^verbatim>\<open>if not x\<close>) is \<open>None\<close>.
\<close>

record subject =
  name :: string
  short :: string

record teacher =
  t_short :: string

record classroom =
  c_short :: string

type_synonym overrides = "string \<rightharpoonup> string"

subsection \<open>Name resolution\<close>

text \<open>
  \<^verbatim>\<open>
  def prep_subject(x: Subject, ctx):
      if not x: return ""
      if x.name in (ovr := get_overrides("subject")): return ovr[x.name]
      return canonicalize(x.name)
  \<close>
  The first argument of each function of the model is the table that
  \<^verbatim>\<open>get_overrides\<close> returns for the category; \<^verbatim>\<open>ctx\<close> is never read and is left out.
\<close>

definition prep_subject :: "overrides \<Rightarrow> subject option \<Rightarrow> string" where
  "prep_subject ovr x =
     (case x of None \<Rightarrow> ''''
      | Some s \<Rightarrow> (case ovr (name s) of Some v \<Rightarrow> v | None \<Rightarrow> canonicalize (name s)))"

definition prep_subject_short :: "overrides \<Rightarrow> subject option \<Rightarrow> string" where
  "prep_subject_short ovr x =
     (case x of None \<Rightarrow> ''''
      | Some s \<Rightarrow> (case ovr (short s) of Some v \<Rightarrow> v | None \<Rightarrow> canonicalize (short s)))"

text \<open>
  \<^verbatim>\<open>
  def prep_classroom(x: Classroom, ctx):
      if not x: return ""
      ovr = get_overrides("classroom")
      if x.short in ovr: return ovr[x.short]
      return x.short
  \<close>
\<close>

definition prep_classroom :: "overrides \<Rightarrow> classroom option \<Rightarrow> string" where
  "prep_classroom ovr x =
     (case x of None \<Rightarrow> ''''
      | Some c \<Rightarrow> (case ovr (c_short c) of Some v \<Rightarrow> v | None \<Rightarrow> c_short c))"

text \<open>
  \<^verbatim>\<open>
  def prep_teacher(x: Teacher, ctx):
      if not x: return ""
      ovr = overrides.parse()
      if (key := x.short.lower()) in ovr: return ovr[key]
      logging.info(f"No name expansion for key \"{x.short}\"")
      return x.short #Don't canonicalize
  \<close>
  The second component of the result is what the call writes to the log.
\<close>

definition prep_teacher :: "overrides \<Rightarrow> teacher option \<Rightarrow> string \<times> string list" where
  "prep_teacher ovr x =
     (case x of None \<Rightarrow> ('''', [])
      | Some t \<Rightarrow>
          (case ovr (lower (t_short t)) of Some v \<Rightarrow> (v, [])
           | None \<Rightarrow> (t_short t, [''No name expansion for key \"'' @ t_short t @ ''\"''])))"

subsection \<open>Group codes\<close>

text \<open>
  The pattern of \<^verbatim>\<open>prep_group\<close> is
  \<^verbatim>\<open>([1-4])([a-zA-Z]|DSD)[1-4]?kl[1-4]?-(\d+)\<close>, and \<^verbatim>\<open>re.match\<close> applies it at the
  start of the string: what follows the match is not looked at. The matcher below
  follows the backtracking search: each piece takes the rest of the pattern as a
  continuation, an optional piece is tried present first and absent second, and the
  alternatives of a group in the order they are written.
\<close>

definition digit14 :: "char \<Rightarrow> bool" where
  "digit14 c = (c \<in> set ''1234'')"

definition ascii_letter :: "char \<Rightarrow> bool" where
  "ascii_letter c = (c \<in> set (ascii_lower @ ascii_upper))"

text \<open>\<^verbatim>\<open>[1-4]?\<close>, then the continuation.\<close>

fun opt14 :: "(string \<Rightarrow> 'a option) \<Rightarrow> string \<Rightarrow> 'a option" where
  "opt14 k [] = k []"
| "opt14 k (c # s) =
     (if digit14 c then (case k s of Some r \<Rightarrow> Some r | None \<Rightarrow> k (c # s)) else k (c # s))"

text \<open>A literal, then the continuation.\<close>

definition lit :: "string \<Rightarrow> (string \<Rightarrow> 'a option) \<Rightarrow> string \<Rightarrow> 'a option" where
  "lit p k s = (if take (length p) s = p then k (drop (length p) s) else None)"

text \<open>\<^verbatim>\<open>(\d+)\<close> at the end of the pattern: the longest run of digits, at least one.\<close>

definition digits1 :: "string \<Rightarrow> string option" where
  "digits1 s = (let d = takeWhile is_digit s in if d = [] then None else Some d)"

text \<open>\<^verbatim>\<open>[1-4]?kl[1-4]?-(\d+)\<close>\<close>

definition group_tail :: "string \<Rightarrow> string option" where
  "group_tail s = opt14 (lit ''kl'' (opt14 (lit ''-'' digits1))) s"

text \<open>\<^verbatim>\<open>([a-zA-Z]|DSD)\<close>, then the tail; the result is the token and the index.\<close>

definition group_token :: "string \<Rightarrow> (string \<times> string) option" where
  "group_token s =
     (case (case s of [] \<Rightarrow> None
            | l # r \<Rightarrow> if ascii_letter l then map_option (Pair [l]) (group_tail r) else None) of
        Some v \<Rightarrow> Some v
      | None \<Rightarrow> lit ''DSD'' (\<lambda>r. map_option (Pair ''DSD'') (group_tail r)) s)"

text \<open>The whole pattern; the result is \<^verbatim>\<open>reg.groups()\<close>.\<close>

definition re_match_group :: "string \<Rightarrow> (string \<times> string \<times> string) option" where
  "re_match_group x =
     (case x of [] \<Rightarrow> None
      | c # s \<Rightarrow> if digit14 c then map_option (Pair [c]) (group_token s) else None)"

text \<open>The dictionary of the six languages.\<close>

definition language_names :: "(string \<times> string) list" where
  "language_names =
     [(''a'', ''angielski''),
      (''n'', ''niemiecki''),
      (''f'', ''francuski''),
      (''h'', ''hiszpa'' @ [CHR 0xC5, CHR 0x84] @ ''ski''),
      (''r'', ''rosyjski''),
      (''w'', ''w'' @ [CHR 0xC5, CHR 0x82] @ ''oski'')]"

text \<open>\<^verbatim>\<open>["ma\u0142y", "du\u017cy"]\<close>, indexed by \<^verbatim>\<open>tok.isupper()\<close>.\<close>

definition group_type :: "bool \<Rightarrow> string" where
  "group_type b =
     (if b then ''du'' @ [CHR 0xC5, CHR 0xBC] @ ''y'' else ''ma'' @ [CHR 0xC5, CHR 0x82] @ ''y'')"

text \<open>
  \<^verbatim>\<open>
  def prep_group(x: str, ctx):
      if not x: return ""
      if x in (ovr := get_overrides("group")): return ovr[x]

      if reg := re.match(r"([1-4])([a-zA-Z]|DSD)[1-4]?kl[1-4]?-(\d+)", x):
          cnt, tok, idx = reg.groups()
          cnt, idx = int(cnt), int(idx)
          if tok.lower() == "dsd": return f"DSD {idx}"
          name = { "a": "angielski", ... }[tok.lower()]
          type_ = ["ma\u0142y", "du\u017cy"][tok.isupper()]

          return f"j\u0119zyk {name} {type_} {idx}"
      return canonicalize(x)
  \<close>
\<close>

definition prep_group :: "overrides \<Rightarrow> string \<Rightarrow> error + string" where
  "prep_group ovr x =
     (if x = [] then Inr ''''
      else case ovr x of Some v \<Rightarrow> Inr v
      | None \<Rightarrow>
          (case re_match_group x of
             Some (cnt, tok, idx) \<Rightarrow>
               (if lower tok = ''dsd'' then Inr (''DSD '' @ str_of_nat (int_of_digits idx))
                else case map_of language_names (lower tok) of
                  None \<Rightarrow> Inl KeyError
                | Some nm \<Rightarrow>
                    Inr (''j'' @ [CHR 0xC4, CHR 0x99] @ ''zyk '' @ nm @ '' ''
                         @ group_type (isupper tok) @ '' '' @ str_of_nat (int_of_digits idx)))
           | None \<Rightarrow> Inr (canonicalize x)))"

subsection \<open>The cache rule\<close>

text \<open>
  \<^verbatim>\<open>
  def trule(*args, **kwargs):
      now = datetime.now()
      date = args[0]
      if now < date:
          return 3600 * 6
      return 1e18
  \<close>
  A \<^verbatim>\<open>datetime\<close> is its position on the time line, an integer count of
  microseconds; the clock read by \<^verbatim>\<open>datetime.now()\<close> is the first argument. The
  result is a number of seconds; the float \<^verbatim>\<open>1e18\<close> is the integer \<open>10 ^ 18\<close>.
\<close>

definition trule :: "int \<Rightarrow> int \<Rightarrow> int" where
  "trule now date = (if now < date then 3600 * 6 else 10 ^ 18)"

subsection \<open>Helpers of the normaliser\<close>

text \<open>Sequencing of calls that can raise.\<close>

definition bindE :: "error + 'a \<Rightarrow> ('a \<Rightarrow> error + 'b) \<Rightarrow> error + 'b" where
  "bindE m f = (case m of Inl e \<Rightarrow> Inl e | Inr v \<Rightarrow> f v)"

text \<open>\<^verbatim>\<open>d[k]\<close> on a dictionary.\<close>

definition getitem :: "('k \<rightharpoonup> 'v) \<Rightarrow> 'k \<Rightarrow> error + 'v" where
  "getitem d k = (case d k of None \<Rightarrow> Inl KeyError | Some v \<Rightarrow> Inr v)"

text \<open>\<^verbatim>\<open>(xs or [d])[0]\<close>: an absent or empty list gives the default.\<close>

definition first_or :: "'a \<Rightarrow> 'a list \<Rightarrow> 'a" where
  "first_or d xs = (case xs of [] \<Rightarrow> d | x # _ \<Rightarrow> x)"

text \<open>
  \<^verbatim>\<open>int(s)\<close> on the text of an integer: an optional sign and decimal digits. The other
  spellings that \<^verbatim>\<open>int\<close> accepts (surrounding blanks, underscores) raise here.
\<close>

definition py_int :: "string \<Rightarrow> error + int" where
  "py_int s =
     (let (neg, d) = (case s of [] \<Rightarrow> (False, [])
                      | c # r \<Rightarrow> if c = CHR ''-'' then (True, r)
                                 else if c = CHR ''+'' then (False, r) else (False, s))
      in if d \<noteq> [] \<and> list_all is_digit d
         then Inr (if neg then - int (int_of_digits d) else int (int_of_digits d))
         else Inl ValueError)"

text \<open>\<^verbatim>\<open>time(h, m)\<close>: a time of day, as seconds since midnight.\<close>

definition time_of :: "nat \<Rightarrow> nat \<Rightarrow> nat" where
  "time_of h m = h * 3600 + m * 60"

text \<open>
  \<^verbatim>\<open>time.fromisoformat(s)\<close> on the form \<^verbatim>\<open>HH:MM\<close>, which the feed and the period
  table use. The longer forms of the standard library (seconds, fractions, offsets)
  raise here.
\<close>

definition fromisoformat :: "string \<Rightarrow> error + nat" where
  "fromisoformat s =
     (if length s = 5 \<and> s ! 2 = CHR '':'' \<and> list_all is_digit [s ! 0, s ! 1, s ! 3, s ! 4]
      then (let h = 10 * digit_val (s ! 0) + digit_val (s ! 1);
                m = 10 * digit_val (s ! 3) + digit_val (s ! 4)
            in if h < 24 \<and> m < 60 then Inr (time_of h m) else Inl ValueError)
      else Inl ValueError)"

text \<open>
  Python list indexing, \<^verbatim>\<open>xs[i]\<close> with \<open>n = len(xs)\<close>: an index from \<open>-n\<close> to \<open>-1\<close>
  counts from the end, and an index outside \<open>-n .. n-1\<close> raises \<^verbatim>\<open>IndexError\<close>.
\<close>

definition py_index :: "int \<Rightarrow> nat \<Rightarrow> error + nat" where
  "py_index i n =
     (if 0 \<le> i \<and> i < int n then Inr (nat i)
      else if - int n \<le> i \<and> i < 0 then Inr (nat (i + int n))
      else Inl IndexError)"

subsection \<open>Tables, raw items and entries\<close>

text \<open>
  The object \<^verbatim>\<open>table = get_data()\<close> and the override tables. The classes of the
  tables are not in this file: a lookup \<^verbatim>\<open>table.teachers[k]\<close> is a function that
  gives the record, a value that tests false (\<open>None\<close>), or the exception it raises.
  \<^verbatim>\<open>table.periods.starttime\<close> is used with \<^verbatim>\<open>in\<close> and \<^verbatim>\<open>[]\<close> and is a dictionary
  from the text of a start time to the identifier of the period. The type \<open>'p\<close> is
  the class of a period.
\<close>

record 'p env =
  teachers :: "string \<Rightarrow> error + teacher option"
  classrooms :: "string \<Rightarrow> error + classroom option"
  subjects :: "string option \<Rightarrow> error + subject option"
  periods_starttime :: "string \<rightharpoonup> string"
  periods :: "string \<Rightarrow> error + 'p"
  subject_overrides :: overrides
  subject_short_overrides :: overrides
  group_overrides :: overrides
  classroom_overrides :: overrides
  teacher_overrides :: overrides

text \<open>
  A raw item of the feed, after \<^verbatim>\<open>defaultdict(lambda: None, obj)\<close>: a key that is
  absent reads as \<^verbatim>\<open>None\<close>. An absent list and an empty list both test false and
  are the empty list here. The field \<open>i_date\<close> is the day number of
  \<^verbatim>\<open>date(*map(int, obj["date"].split("-")))\<close>, so that the difference of two dates in
  days is the difference of their day numbers; the model starts from items whose date
  has been read, and an item whose date does not parse is outside it.
\<close>

record ttitem =
  i_date :: int
  teacherids :: "string list"
  classroomids :: "string list"
  subjectid :: "string option"
  starttime :: string
  i_type :: "string option"
  groupnames :: "string list"
  colors :: "string list"
  durationperiods :: "int option"
  i_removed :: "bool option"
  i_name :: "string option"

text \<open>
  \<^verbatim>\<open>TTentry\<close> and \<^verbatim>\<open>TTabsent\<close> share the fields of a slot of the week; \<open>date\<close> is
  the day number that \<^verbatim>\<open>strftime\<close> prints.
\<close>

record slot =
  date :: int
  day_index :: int
  time_index :: int
  duration :: int
  group_raw :: string
  group :: string

record 'p ttentry_raw =
  raw_subject :: "subject option"
  raw_period :: 'p
  raw_teacher :: "teacher option"
  raw_classroom :: "classroom option"

record 'p ttentry = slot +
  subject :: string
  subject_short :: string
  teacher :: string
  classroom :: string
  color :: string
  removed :: bool
  raw :: "'p ttentry_raw option"

record ttabsent = slot +
  name_ :: "string option"

text \<open>
  The lists that the loop of \<^verbatim>\<open>get_timetable_data\<close> builds, \<^verbatim>\<open>data\<close> and
  \<^verbatim>\<open>events\<close>, and the lines it writes to the log.
\<close>

record 'p acc =
  data :: "'p ttentry list"
  events :: "ttabsent list"
  logged :: "string list"

text \<open>The result \<^verbatim>\<open>{"ttdata": output, "events": events}\<close>.\<close>

record 'p result =
  ttdata :: "'p ttentry list list list"
  out_events :: "ttabsent list"

subsection \<open>The loop over the raw items\<close>

text \<open>\<^verbatim>\<open>obj["durationperiods"] or 1\<close>: \<^verbatim>\<open>None\<close> and \<open>0\<close> test false.\<close>

definition or_int :: "int option \<Rightarrow> int \<Rightarrow> int" where
  "or_int v d = (case v of None \<Rightarrow> d | Some n \<Rightarrow> if n = 0 then d else n)"

text \<open>\<^verbatim>\<open>obj["removed"] or False\<close>\<close>

definition or_bool :: "bool option \<Rightarrow> bool \<Rightarrow> bool" where
  "or_bool v d = (case v of None \<Rightarrow> d | Some b \<Rightarrow> if b then b else d)"

text \<open>
  \<^verbatim>\<open>
  start = time.fromisoformat(obj["starttime"])
  if start < time(7, 10):    starttime = "07:10"
  elif start > time(16, 30): starttime = "16:30"
  elif obj["starttime"] not in table.periods.starttime:
      logging.error(f"Unusual starttime encountered ({obj['starttime']})")
      continue
  else: starttime = obj["starttime"]
  \<close>
  The result \<open>None\<close> is the branch that ends in \<^verbatim>\<open>continue\<close>.
\<close>

definition bucket_starttime :: "'p env \<Rightarrow> ttitem \<Rightarrow> error + string option" where
  "bucket_starttime env obj =
     bindE (fromisoformat (starttime obj)) (\<lambda>start.
       if start < time_of 7 10 then Inr (Some ''07:10'')
       else if start > time_of 16 30 then Inr (Some ''16:30'')
       else if periods_starttime env (starttime obj) = None then Inr None
       else Inr (Some (starttime obj)))"

text \<open>
  The branch \<^verbatim>\<open>type_ == "card"\<close>: the entry, and the log line of \<^verbatim>\<open>prep_teacher\<close>.
  The arguments of \<^verbatim>\<open>TTentry(...)\<close> are evaluated in the order written;
  \<^verbatim>\<open>time_index\<close> is \<^verbatim>\<open>int(table.periods.starttime[obj["starttime"]])\<close>, read with the
  start time of the item itself.
\<close>

definition card_entry ::
  "'p env \<Rightarrow> int \<Rightarrow> bool \<Rightarrow> ttitem \<Rightarrow> subject option \<Rightarrow> teacher option \<Rightarrow> classroom option \<Rightarrow> 'p
     \<Rightarrow> error + 'p ttentry \<times> string list" where
  "card_entry env monday_before want_raw obj subj teach room period =
     (let group_raw0 = first_or [] (groupnames obj);
          (teacher_name, teacher_log) = prep_teacher (teacher_overrides env) teach
      in bindE (getitem (periods_starttime env) (starttime obj)) (\<lambda>pid.
         bindE (py_int pid) (\<lambda>ti.
         bindE (prep_group (group_overrides env) group_raw0) (\<lambda>g.
           Inr (\<lparr>date = i_date obj,
                 day_index = i_date obj - monday_before,
                 time_index = ti,
                 duration = or_int (durationperiods obj) 1,
                 group_raw = group_raw0,
                 group = g,
                 subject = prep_subject (subject_overrides env) subj,
                 subject_short = prep_subject_short (subject_short_overrides env) subj,
                 teacher = teacher_name,
                 classroom = prep_classroom (classroom_overrides env) room,
                 color = first_or ''#d0ffd0'' (colors obj),
                 removed = or_bool (i_removed obj) False,
                 raw = (if want_raw
                        then Some \<lparr>raw_subject = subj, raw_period = period,
                                   raw_teacher = teach, raw_classroom = room\<rparr>
                        else None)\<rparr>,
                teacher_log)))))"

text \<open>
  The other branch:
  \<^verbatim>\<open>
  duration = obj["durationperiods"] or 1
  time_index = int(table.periods.starttime[starttime])
  if duration + time_index > 9:
      duration = 9 - time_index
  events.append(TTabsent(...))
  \<close>
  Here \<^verbatim>\<open>starttime\<close> is the bucket chosen above.
\<close>

definition absent_entry :: "'p env \<Rightarrow> int \<Rightarrow> ttitem \<Rightarrow> string \<Rightarrow> error + ttabsent" where
  "absent_entry env monday_before obj bucket =
     (let group_raw0 = first_or [] (groupnames obj);
          duration0 = or_int (durationperiods obj) 1
      in bindE (getitem (periods_starttime env) bucket) (\<lambda>pid.
         bindE (py_int pid) (\<lambda>ti.
         bindE (prep_group (group_overrides env) group_raw0) (\<lambda>g.
           Inr \<lparr>date = i_date obj,
                day_index = i_date obj - monday_before,
                time_index = ti,
                duration = (if duration0 + ti > 9 then 9 - ti else duration0),
                group_raw = group_raw0,
                group = g,
                name_ = i_name obj\<rparr>))))"

text \<open>
  One pass of \<^verbatim>\<open>for obj in resp\<close>, as what the pass appends to \<^verbatim>\<open>data\<close>, to
  \<^verbatim>\<open>events\<close> and to the log, or the exception that ends the call.
\<close>

definition loop_body :: "'p env \<Rightarrow> int \<Rightarrow> bool \<Rightarrow> ttitem \<Rightarrow> error + 'p acc" where
  "loop_body env monday_before want_raw obj =
     bindE (teachers env (first_or ''0'' (teacherids obj))) (\<lambda>teach.
     bindE (classrooms env (first_or ''0'' (classroomids obj))) (\<lambda>room.
     bindE (subjects env (subjectid obj)) (\<lambda>subj.
     bindE (bucket_starttime env obj) (\<lambda>b.
       case b of
         None \<Rightarrow>
           Inr \<lparr>data = [], events = [],
                logged = [''Unusual starttime encountered ('' @ starttime obj @ '')'']\<rparr>
       | Some bucket \<Rightarrow>
           bindE (getitem (periods_starttime env) bucket) (\<lambda>pid.
           bindE (periods env pid) (\<lambda>period.
             if i_type obj = Some ''card''
             then bindE (card_entry env monday_before want_raw obj subj teach room period)
                    (\<lambda>(e, l). Inr \<lparr>data = [e], events = [], logged = l\<rparr>)
             else bindE (absent_entry env monday_before obj bucket)
                    (\<lambda>ev. Inr \<lparr>data = [], events = [ev], logged = []\<rparr>)))))))"

fun loop :: "'p env \<Rightarrow> int \<Rightarrow> bool \<Rightarrow> ttitem list \<Rightarrow> 'p acc \<Rightarrow> error + 'p acc" where
  "loop env monday_before want_raw [] st = Inr st"
| "loop env monday_before want_raw (obj # resp) st =
     bindE (loop_body env monday_before want_raw obj) (\<lambda>d.
       loop env monday_before want_raw resp
         \<lparr>data = data st @ data d, events = events st @ events d,
          logged = logged st @ logged d\<rparr>)"

subsection \<open>Sorting, the filter rule and the grid\<close>

text \<open>
  \<^verbatim>\<open>data.sort(key = lambda x: x["day_index"])\<close> is a stable sort, as \<open>sort_key\<close> is.
  \<^verbatim>\<open>
  for x in data:
      if x["subject"] == "religia":
          x["group"] = "religia 1"
  \<close>
\<close>

definition religia :: "'p ttentry \<Rightarrow> 'p ttentry" where
  "religia x = (if subject x = ''religia'' then x\<lparr>group := ''religia 1''\<rparr> else x)"

text \<open>
  A dictionary that keeps the order in which its keys were first set, as a list of
  pairs. \<open>dict_set\<close> is \<^verbatim>\<open>d[k] = v\<close> and \<open>dict_append\<close> is \<^verbatim>\<open>d[k].append(x)\<close> on a
  key that is present.
\<close>

fun dict_set :: "'k \<Rightarrow> 'v \<Rightarrow> ('k \<times> 'v) list \<Rightarrow> ('k \<times> 'v) list" where
  "dict_set k v [] = [(k, v)]"
| "dict_set k v ((k', v') # d) = (if k' = k then (k, v) # d else (k', v') # dict_set k v d)"

definition dict_append :: "'k \<Rightarrow> 'a \<Rightarrow> ('k \<times> 'a list) list \<Rightarrow> ('k \<times> 'a list) list" where
  "dict_append k x d = map (\<lambda>(k', v). if k' = k then (k', v @ [x]) else (k', v)) d"

text \<open>
  \<^verbatim>\<open>
  days = {x["day_index"]:[] for x in data}
  for x in data:
      days[x["day_index"]].append(x)
  \<close>
\<close>

definition days_of :: "'p ttentry list \<Rightarrow> (int \<times> 'p ttentry list) list" where
  "days_of xs =
     foldl (\<lambda>d x. dict_append (day_index x) x d)
       (foldl (\<lambda>d x. dict_set (day_index x) [] d) [] xs) xs"

text \<open>\<^verbatim>\<open>itertools.groupby\<close>: the runs of consecutive elements with equal keys.\<close>

function groupby :: "('a \<Rightarrow> 'k) \<Rightarrow> 'a list \<Rightarrow> ('k \<times> 'a list) list" where
  "groupby f [] = []"
| "groupby f (x # xs) =
     (f x, x # takeWhile (\<lambda>y. f y = f x) xs) # groupby f (dropWhile (\<lambda>y. f y = f x) xs)"
  by pat_completeness auto
termination
  by (relation "measure (\<lambda>(f, xs). length xs)") (auto simp: less_Suc_eq_le length_dropWhile_le)

text \<open>
  \<^verbatim>\<open>
  for x, y in groupby(day, lambda x: x["time_index"]):
      output[idx][x] = list(y)
  \<close>
\<close>

fun fill_day ::
  "int \<Rightarrow> (int \<times> 'a list) list \<Rightarrow> 'a list list list \<Rightarrow> error + 'a list list list" where
  "fill_day idx [] output = Inr output"
| "fill_day idx ((x, y) # gs) output =
     bindE (py_index idx (length output)) (\<lambda>i.
     bindE (py_index x (length (output ! i))) (\<lambda>j.
       fill_day idx gs (output[i := (output ! i)[j := y]])))"

text \<open>\<^verbatim>\<open>for idx, day in days.items(): ...\<close>\<close>

fun fill_days ::
  "(int \<times> 'p ttentry list) list \<Rightarrow> 'p ttentry list list list
     \<Rightarrow> error + 'p ttentry list list list" where
  "fill_days [] output = Inr output"
| "fill_days ((idx, day) # ds) output =
     bindE (fill_day idx (groupby time_index day) output) (\<lambda>output'. fill_days ds output')"

text \<open>
  \<^verbatim>\<open>get_timetable_data(_date, class_id, raw)\<close>. The argument \<open>resp\<close> is what
  \<^verbatim>\<open>get_timetable_data_raw(_date, class_id)\<close> returned, \<open>monday_before\<close> is the day
  number of \<^verbatim>\<open>utils.date.monday_before(_date)\<close>, and \<open>want_raw\<close> is the flag
  \<^verbatim>\<open>raw\<close>. \<^verbatim>\<open>output = [[[]]*11 for _ in range(5)]\<close> is five rows of eleven empty
  cells; a cell is only ever replaced, never appended to.
\<close>

definition get_timetable_data ::
  "'p env \<Rightarrow> int \<Rightarrow> bool \<Rightarrow> ttitem list \<Rightarrow> error + 'p result" where
  "get_timetable_data env monday_before want_raw resp =
     bindE (loop env monday_before want_raw resp \<lparr>data = [], events = [], logged = []\<rparr>)
       (\<lambda>st.
          let sorted_data = map religia (sort_key day_index (data st));
              output = replicate 5 (replicate 11 [])
          in bindE (fill_days (days_of sorted_data) output)
               (\<lambda>output'. Inr \<lparr>ttdata = output', out_events = events st\<rparr>))"

subsection \<open>The structured pattern as the specification words it\<close>

text \<open>
  The specification describes a structured group code as
  \<^verbatim>\<open><class-count 1-4><language-token><optional 1-4>"kl"<optional 1-4>-<numeric index>\<close>,
  and the token that the pattern of the code admits is one letter or \<^verbatim>\<open>DSD\<close>.
  \<open>whole_structured x\<close> says that the whole of \<open>x\<close> has this form.
\<close>

definition optional14 :: "string \<Rightarrow> bool" where
  "optional14 a = (a = [] \<or> (\<exists>d. a = [d] \<and> digit14 d))"



subsection \<open>The grid of a call\<close>

text \<open>The grid that a call returned, or \<open>None\<close> when the call raised.\<close>

definition grid_of_result :: "error + 'p result \<Rightarrow> 'p ttentry list list list option" where
  "grid_of_result r = (case r of Inl e \<Rightarrow> None | Inr out \<Rightarrow> Some (ttdata out))"

text \<open>What one pass of the loop appends to \<^verbatim>\<open>data\<close>, when it does not raise.\<close>

definition body_data :: "'p env \<Rightarrow> int \<Rightarrow> bool \<Rightarrow> ttitem \<Rightarrow> 'p ttentry list" where
  "body_data env monday_before want_raw obj =
     (case loop_body env monday_before want_raw obj of Inl e \<Rightarrow> [] | Inr d \<Rightarrow> data d)"

subsection \<open>Example tables and items\<close>

text \<open>
  A period table with eleven start times from 07:10 to 16:30, numbered 0 to 10, and
  tables that know no teacher, classroom, subject or override.
\<close>

definition example_periods :: "(string \<times> string) list" where
  "example_periods =
     [(''07:10'', ''0''), (''08:00'', ''1''), (''08:55'', ''2''), (''09:50'', ''3''),
      (''10:45'', ''4''), (''11:50'', ''5''), (''12:45'', ''6''), (''13:40'', ''7''),
      (''14:35'', ''8''), (''15:30'', ''9''), (''16:30'', ''10'')]"

definition example_env :: "unit env" where
  "example_env =
     \<lparr>teachers = (\<lambda>k. Inr None), classrooms = (\<lambda>k. Inr None), subjects = (\<lambda>k. Inr None),
      periods_starttime = map_of example_periods,
      periods = (\<lambda>k. Inr ()),
      subject_overrides = Map.empty, subject_short_overrides = Map.empty,
      group_overrides = Map.empty, classroom_overrides = Map.empty,
      teacher_overrides = Map.empty\<rparr>"

text \<open>An item with a day number, a start time, a type, a group and a duration.\<close>

definition example_item :: "int \<Rightarrow> string \<Rightarrow> string \<Rightarrow> string \<Rightarrow> int option \<Rightarrow> ttitem" where
  "example_item d st ty g dur =
     \<lparr>i_date = d, teacherids = [], classroomids = [], subjectid = None, starttime = st,
      i_type = Some ty, groupnames = [g], colors = [], durationperiods = dur,
      i_removed = None, i_name = None\<rparr>"

text \<open>The lesson entry and the event that the example tables make of such an item.\<close>

definition example_entry :: "int \<Rightarrow> int \<Rightarrow> int \<Rightarrow> string \<Rightarrow> unit ttentry" where
  "example_entry d di ti g =
     \<lparr>date = d, day_index = di, time_index = ti, duration = 1, group_raw = g, group = g,
      subject = [], subject_short = [], teacher = [], classroom = [], color = ''#d0ffd0'',
      removed = False, raw = None\<rparr>"

definition empty_grid :: "'a list list list" where
  "empty_grid = replicate 5 (replicate 11 [])"

subsection \<open>The invariant of the grid assembly\<close>

text \<open>
  An entry lies in the cell that Python indexing reaches with the entry's own
  \<open>day_index\<close> and \<open>time_index\<close>, in a grid of five rows of eleven cells.
\<close>

definition cell_ok :: "nat \<Rightarrow> nat \<Rightarrow> 'p ttentry \<Rightarrow> bool" where
  "cell_ok i j e = (py_index (day_index e) 5 = Inr i \<and> py_index (time_index e) 11 = Inr j)"

definition grid_ok :: "'p ttentry list list list \<Rightarrow> bool" where
  "grid_ok g =
     (length g = 5 \<and> (\<forall>row \<in> set g. length row = 11)
      \<and> (\<forall>i < 5. \<forall>j < 11. \<forall>e \<in> set (g ! i ! j). cell_ok i j e))"

text \<open>
  The shape of the grid, and the cell that an assignment \<^verbatim>\<open>output[idx][x] = ...\<close>
  writes.
\<close>

definition shape_ok :: "'a list list list \<Rightarrow> bool" where
  "shape_ok g = (length g = 5 \<and> (\<forall>row \<in> set g. length row = 11))"

definition targets :: "int \<Rightarrow> int \<Rightarrow> nat \<Rightarrow> nat \<Rightarrow> bool" where
  "targets idx x i j = (py_index idx 5 = Inr i \<and> py_index x 11 = Inr j)"

text \<open>Two entries that \<^verbatim>\<open>output[idx][x] = ...\<close> writes to the same cell.\<close>

definition same_cell :: "'p ttentry \<Rightarrow> 'p ttentry \<Rightarrow> bool" where
  "same_cell e e' =
     (\<exists>i j. targets (day_index e) (time_index e) i j
          \<and> targets (day_index e') (time_index e') i j)"

section \<open>Properties\<close>

subsection \<open>Evaluation rules\<close>

lemmas string_evals =
  lower_def lower_char_def ascii_upper_def ascii_lower_def replace_underscore_def isupper_def
  canonicalize_def is_digit_def digit_val_def int_of_digits_def str_of_nat.simps

lemmas group_evals =
  prep_group_def re_match_group_def group_token_def group_tail_def lit_def digits1_def
  digit14_def ascii_letter_def language_names_def group_type_def

subsection \<open>Group codes\<close>

text \<open>
  C5. With no override for the four inputs, \<^verbatim>\<open>2a1kl-3\<close> decodes to \<^verbatim>\<open>j\u0119zyk angielski
  ma\u0142y 3\<close>, \<^verbatim>\<open>2A1kl-3\<close> to \<^verbatim>\<open>j\u0119zyk angielski du\u017cy 3\<close>, \<^verbatim>\<open>3DSDkl-1\<close> to
  \<^verbatim>\<open>DSD 1\<close>, and the unstructured \<^verbatim>\<open>grupa_x\<close> falls back to \<^verbatim>\<open>grupa x\<close>.
\<close>

theorem group_decoding_examples:
  assumes "ovr ''2a1kl-3'' = None" and "ovr ''2A1kl-3'' = None"
    and "ovr ''3DSDkl-1'' = None" and "ovr ''grupa_x'' = None"
  shows "prep_group ovr ''2a1kl-3'' =
           Inr (''j'' @ [CHR 0xC4, CHR 0x99] @ ''zyk angielski ma'' @ [CHR 0xC5, CHR 0x82] @ ''y 3'')
       \<and> prep_group ovr ''2A1kl-3'' =
           Inr (''j'' @ [CHR 0xC4, CHR 0x99] @ ''zyk angielski du'' @ [CHR 0xC5, CHR 0xBC] @ ''y 3'')
       \<and> prep_group ovr ''3DSDkl-1'' = Inr ''DSD 1''
       \<and> prep_group ovr ''grupa_x'' = Inr ''grupa x''"
  using assms by (simp add: group_evals string_evals)

theorem group_decoding_examples_witness:
  "prep_group Map.empty ''2a1kl-3'' =
           Inr (''j'' @ [CHR 0xC4, CHR 0x99] @ ''zyk angielski ma'' @ [CHR 0xC5, CHR 0x82] @ ''y 3'')
       \<and> prep_group Map.empty ''2A1kl-3'' =
           Inr (''j'' @ [CHR 0xC4, CHR 0x99] @ ''zyk angielski du'' @ [CHR 0xC5, CHR 0xBC] @ ''y 3'')
       \<and> prep_group Map.empty ''3DSDkl-1'' = Inr ''DSD 1''
       \<and> prep_group Map.empty ''grupa_x'' = Inr ''grupa x''"
  using group_decoding_examples [of Map.empty] by simp

lemma lower_single_not_dsd: "lower [l] \<noteq> ''dsd''"
  by (simp add: lower_def)

lemma language_lookup_None:
  "lower_char l \<notin> set ''anfhrw'' \<Longrightarrow> map_of language_names (lower [l]) = None"
  by (auto simp: language_names_def lower_def)

text \<open>The structured form with a one-letter token is matched, whatever follows it.\<close>

lemma opt14_skip:
  "optional14 a \<Longrightarrow> s \<noteq> [] \<Longrightarrow> \<not> digit14 (hd s) \<Longrightarrow> k s = Some r
   \<Longrightarrow> opt14 k (a @ s) = Some r"
  by (cases s) (auto simp: optional14_def)

lemma lit_append: "lit p k (p @ s) = k s"
  by (simp add: lit_def)

lemma digits1_append:
  assumes "idx \<noteq> []" and "list_all is_digit idx"
  shows "digits1 (idx @ rest) = Some (idx @ takeWhile is_digit rest)"
proof -
  have "takeWhile is_digit (idx @ rest) = idx @ takeWhile is_digit rest"
    by (rule takeWhile_append2) (use assms(2) in \<open>simp add: list_all_iff\<close>)
  with assms(1) show ?thesis by (simp add: digits1_def)
qed

lemma group_tail_structured:
  assumes "optional14 a" and "optional14 b" and "idx \<noteq> []" and "list_all is_digit idx"
  shows "group_tail (a @ ''kl'' @ b @ ''-'' @ idx @ rest) = Some (idx @ takeWhile is_digit rest)"
proof -
  have "digits1 (idx @ rest) = Some (idx @ takeWhile is_digit rest)"
    using assms(3,4) by (rule digits1_append)
  then have d: "lit ''-'' digits1 (''-'' @ idx @ rest) = Some (idx @ takeWhile is_digit rest)"
    by (simp only: lit_append)
  have "opt14 (lit ''-'' digits1) (b @ ''-'' @ idx @ rest) = Some (idx @ takeWhile is_digit rest)"
    using assms(2) _ _ d by (rule opt14_skip) (simp_all add: digit14_def)
  then have k: "lit ''kl'' (opt14 (lit ''-'' digits1)) (''kl'' @ b @ ''-'' @ idx @ rest)
      = Some (idx @ takeWhile is_digit rest)"
    by (simp only: lit_append)
  have "opt14 (lit ''kl'' (opt14 (lit ''-'' digits1)))
      (a @ ''kl'' @ b @ ''-'' @ idx @ rest) = Some (idx @ takeWhile is_digit rest)"
    using assms(1) _ _ k by (rule opt14_skip) (simp_all add: digit14_def)
  then show ?thesis by (simp only: group_tail_def)
qed

lemma re_match_group_letter:
  assumes "digit14 c" and "ascii_letter l" and "optional14 a" and "optional14 b"
    and "idx \<noteq> []" and "list_all is_digit idx"
  shows "re_match_group (c # l # a @ ''kl'' @ b @ ''-'' @ idx @ rest)
       = Some ([c], [l], idx @ takeWhile is_digit rest)"
proof -
  define s where "s = a @ ''kl'' @ b @ ''-'' @ idx @ rest"
  have "group_tail s = Some (idx @ takeWhile is_digit rest)"
    unfolding s_def using assms(3-6) by (rule group_tail_structured)
  with assms(1,2) have "re_match_group (c # l # s) = Some ([c], [l], idx @ takeWhile is_digit rest)"
    by (simp add: re_match_group_def group_token_def)
  then show ?thesis by (simp only: s_def)
qed

lemma prep_group_unknown_token:
  assumes "ovr x = None" and "re_match_group x = Some (cnt, [l], idx)"
    and "lower_char l \<notin> set ''anfhrw''"
  shows "prep_group ovr x = Inl KeyError"
proof -
  from assms(2) have "x \<noteq> []" by (auto simp: re_match_group_def)
  with assms(1,2) language_lookup_None [OF assms(3)] show ?thesis
    by (simp add: prep_group_def lower_single_not_dsd)
qed

text \<open>
  C7. A group code with no override that has the structured form at its start, with
  a one-letter token whose lowercase form is none of \<^verbatim>\<open>a n f h r w\<close>, raises
  \<^verbatim>\<open>KeyError\<close>: there is no substituted and no canonicalized result.
\<close>

theorem unknown_language_token_raises:
  assumes "ovr x = None"
    and "x = c # l # a @ ''kl'' @ b @ ''-'' @ idx @ rest"
    and "digit14 c" and "ascii_letter l" and "optional14 a" and "optional14 b"
    and "idx \<noteq> []" and "list_all is_digit idx"
    and "lower_char l \<notin> set ''anfhrw''"
  shows "prep_group ovr x = Inl KeyError"
proof -
  have "re_match_group x = Some ([c], [l], idx @ takeWhile is_digit rest)"
    unfolding assms(2) using assms(3-8) by (rule re_match_group_letter)
  with assms(1) show ?thesis using assms(9) by (rule prep_group_unknown_token)
qed

theorem unknown_language_token_raises_witness:
  "Map.empty ''2x1kl-3'' = None
   \<and> ''2x1kl-3'' = CHR ''2'' # CHR ''x'' # ''1'' @ ''kl'' @ [] @ ''-'' @ ''3'' @ []
   \<and> digit14 CHR ''2'' \<and> ascii_letter CHR ''x'' \<and> optional14 ''1'' \<and> optional14 []
   \<and> ''3'' \<noteq> [] \<and> list_all is_digit ''3''
   \<and> lower_char CHR ''x'' \<notin> set ''anfhrw''
   \<and> prep_group Map.empty ''2x1kl-3'' = Inl KeyError"
proof -
  have h: "digit14 CHR ''2''" "ascii_letter CHR ''x''" "optional14 ''1''" "optional14 []"
    "list_all is_digit ''3''" "lower_char CHR ''x'' \<notin> set ''anfhrw''"
    by (simp_all add: digit14_def ascii_letter_def optional14_def string_evals)
  have x: "''2x1kl-3'' = CHR ''2'' # CHR ''x'' # ''1'' @ ''kl'' @ [] @ ''-'' @ ''3'' @ []"
    by simp
  have "prep_group Map.empty ''2x1kl-3'' = Inl KeyError"
    by (rule unknown_language_token_raises [OF _ x h(1-4) _ h(5,6)]) simp_all
  with h x show ?thesis by simp
qed


subsection \<open>The cache rule\<close>

text \<open>
  C9. For a requested date strictly after the clock, \<^verbatim>\<open>trule\<close> gives six hours, in
  seconds; for any other date it gives \<open>10 ^ 18\<close> seconds, which is more than thirty
  thousand million years.
\<close>

theorem trule_ttl:
  "(now < d \<longrightarrow> trule now d = 6 * 3600)
   \<and> (\<not> now' < d' \<longrightarrow> trule now' d' = 10 ^ 18 \<and> 30000000000 * (365 * 24 * 3600) < trule now' d')"
  by (simp add: trule_def)

theorem trule_ttl_witness:
  "(0::int) < 1 \<and> trule 0 1 = 21600 \<and> \<not> (1::int) < 1 \<and> trule 1 1 = 10 ^ 18
   \<and> \<not> (5::int) < 1 \<and> trule 5 1 = 10 ^ 18"
  using trule_ttl [of 0 1 1 1] trule_ttl [of 0 1 5 1] by simp

subsection \<open>What the matcher accepts\<close>













subsection \<open>Name resolution\<close>

text \<open>
  C6, as stated, fails in three places: a classroom with no override keeps its
  abbreviation as it is, a structured group code with no override is decoded and not
  canonicalized, and the empty group identifier returns the empty string even when
  the override table has an entry for it.
\<close>

theorem name_resolution_counterexample:
  "prep_classroom Map.empty (Some \<lparr>c_short = ''Sala_1''\<rparr>) = ''Sala_1''
   \<and> canonicalize ''Sala_1'' = ''sala 1''
   \<and> prep_group Map.empty ''2a1kl-3'' =
       Inr (''j'' @ [CHR 0xC4, CHR 0x99] @ ''zyk angielski ma'' @ [CHR 0xC5, CHR 0x82] @ ''y 3'')
   \<and> canonicalize ''2a1kl-3'' = ''2a1kl-3''
   \<and> prep_group [[] \<mapsto> ''x''] [] = Inr []"
  by (simp add: prep_classroom_def group_evals string_evals)

lemma canonicalize_Nil: "canonicalize [] = []"
  by (simp add: canonicalize_def lower_def replace_underscore_def)

text \<open>
  C6, amended. An override is returned as it is, for a subject, a subject
  abbreviation, a classroom and a group identifier that is not empty. With no
  override, a subject and a subject abbreviation are canonicalized, a classroom keeps
  its abbreviation unchanged, and a group identifier that the pattern does not match
  is canonicalized.
\<close>

theorem name_resolution:
  "(ovra (name s) = Some va \<longrightarrow> prep_subject ovra (Some s) = va)
   \<and> (ovrb (short s) = Some vb \<longrightarrow> prep_subject_short ovrb (Some s) = vb)
   \<and> (ovrc (c_short c) = Some vc \<longrightarrow> prep_classroom ovrc (Some c) = vc)
   \<and> (g \<noteq> [] \<and> ovrd g = Some vd \<longrightarrow> prep_group ovrd g = Inr vd)
   \<and> (ovre (name s') = None \<longrightarrow> prep_subject ovre (Some s') = canonicalize (name s'))
   \<and> (ovrf (short s') = None \<longrightarrow> prep_subject_short ovrf (Some s') = canonicalize (short s'))
   \<and> (ovrg (c_short c') = None \<longrightarrow> prep_classroom ovrg (Some c') = c_short c')
   \<and> (ovrh g' = None \<and> re_match_group g' = None \<longrightarrow> prep_group ovrh g' = Inr (canonicalize g'))"
  by (simp add: prep_subject_def prep_subject_short_def prep_classroom_def prep_group_def
        canonicalize_Nil)

theorem name_resolution_witness:
  "prep_subject [''fizyka'' \<mapsto> ''physics''] (Some \<lparr>name = ''fizyka'', short = ''fiz''\<rparr>) = ''physics''
   \<and> prep_subject_short [''fiz'' \<mapsto> ''phy''] (Some \<lparr>name = ''fizyka'', short = ''fiz''\<rparr>) = ''phy''
   \<and> prep_classroom [''s12'' \<mapsto> ''Room 12''] (Some \<lparr>c_short = ''s12''\<rparr>) = ''Room 12''
   \<and> prep_group [''2a1kl-3'' \<mapsto> ''English''] ''2a1kl-3'' = Inr ''English''
   \<and> prep_subject Map.empty (Some \<lparr>name = ''Chemia_Org'', short = ''Ch_O''\<rparr>) = ''chemia org''
   \<and> prep_subject_short Map.empty (Some \<lparr>name = ''Chemia_Org'', short = ''Ch_O''\<rparr>) = ''ch o''
   \<and> prep_classroom Map.empty (Some \<lparr>c_short = ''Sala_1''\<rparr>) = ''Sala_1''
   \<and> re_match_group ''grupa_x'' = None
   \<and> prep_group Map.empty ''grupa_x'' = Inr ''grupa x''"
proof -
  have m: "re_match_group ''grupa_x'' = None"
    by (simp add: re_match_group_def digit14_def)
  have c: "canonicalize ''Chemia_Org'' = ''chemia org''" "canonicalize ''Ch_O'' = ''ch o''"
    "canonicalize ''grupa_x'' = ''grupa x''"
    by (simp_all add: string_evals)
  show ?thesis
    using name_resolution [where ovra = "[''fizyka'' \<mapsto> ''physics'']"
        and s = "\<lparr>name = ''fizyka'', short = ''fiz''\<rparr>" and va = "''physics''"
        and ovrb = "[''fiz'' \<mapsto> ''phy'']" and vb = "''phy''"
        and ovrc = "[''s12'' \<mapsto> ''Room 12'']" and c = "\<lparr>c_short = ''s12''\<rparr>" and vc = "''Room 12''"
        and ovrd = "[''2a1kl-3'' \<mapsto> ''English'']" and g = "''2a1kl-3''" and vd = "''English''"
        and ovre = Map.empty and s' = "\<lparr>name = ''Chemia_Org'', short = ''Ch_O''\<rparr>"
        and ovrf = Map.empty and ovrg = Map.empty and c' = "\<lparr>c_short = ''Sala_1''\<rparr>"
        and ovrh = Map.empty and g' = "''grupa_x''"] m c
    by simp
qed


subsection \<open>Evaluation of the normaliser\<close>

lemmas item_evals =
  loop_body_def card_entry_def absent_entry_def bucket_starttime_def
  bindE_def getitem_def first_or_def py_int_def time_of_def fromisoformat_def
  or_int_def or_bool_def prep_subject_def Let_def
  prep_subject_short_def prep_classroom_def prep_teacher_def example_env_def example_periods_def
  example_item_def example_entry_def

lemma empty_grid_rows:
  "replicate 5 (replicate 11 []) =
     [[[], [], [], [], [], [], [], [], [], [], []],
      [[], [], [], [], [], [], [], [], [], [], []],
      [[], [], [], [], [], [], [], [], [], [], []],
      [[], [], [], [], [], [], [], [], [], [], []],
      [[], [], [], [], [], [], [], [], [], [], []]]"
  by (simp add: numeral_eq_Suc)

lemmas grid_evals =
  get_timetable_data_def religia_def days_of_def dict_append_def py_index_def bindE_def
  empty_grid_rows Let_def example_entry_def empty_grid_def

subsection \<open>The loop\<close>

lemma bindE_Inr: "bindE m f = Inr r \<longleftrightarrow> (\<exists>v. m = Inr v \<and> f v = Inr r)"
  by (cases m) (simp_all add: bindE_def)









subsection \<open>Duration zero\<close>





subsection \<open>Start times\<close>

lemma ex_body_early_card:
  "loop_body example_env 0 False (example_item 0 ''06:45'' ''card'' ''a'' None) = Inl KeyError"
  by (simp add: item_evals string_evals group_evals)

lemma ex_body_late_card:
  "loop_body example_env 0 False (example_item 0 ''17:00'' ''card'' ''a'' None) = Inl KeyError"
  by (simp add: item_evals string_evals group_evals)

lemma ex_body_early_event:
  "loop_body example_env 0 False (example_item 0 ''06:45'' ''event'' ''a'' None)
   = Inr \<lparr>data = [], events = [\<lparr>date = 0, day_index = 0, time_index = 0, duration = 1,
        group_raw = ''a'', group = ''a'', name_ = None\<rparr>], logged = []\<rparr>"
  by (simp add: item_evals string_evals group_evals)

lemma ex_body_late_event:
  "loop_body example_env 0 False (example_item 0 ''17:00'' ''event'' ''a'' None)
   = Inr \<lparr>data = [], events = [\<lparr>date = 0, day_index = 0, time_index = 10, duration = - 1,
        group_raw = ''a'', group = ''a'', name_ = None\<rparr>], logged = []\<rparr>"
  by (simp add: item_evals string_evals group_evals)

lemma ex_body_unlisted:
  "loop_body example_env 0 False (example_item 0 ''09:17'' ty ''a'' None)
   = Inr \<lparr>data = [], events = [], logged = [''Unusual starttime encountered (09:17)'']\<rparr>"
  by (simp add: item_evals string_evals group_evals)

text \<open>
  C1, evaluated. With a period table that lists 07:10 to 16:30 and not 06:45 or
  17:00, an event that starts at 06:45 is put at the period of 07:10 and one that
  starts at 17:00 at the period of 16:30; an item that starts at 09:17 is dropped,
  lesson or not, and the drop is logged. A lesson that starts at 06:45 or at 17:00
  is not put at the clamped period: the lookup of its own start time raises
  \<^verbatim>\<open>KeyError\<close> and the call returns nothing.
\<close>

theorem lesson_start_time_not_clamped:
  "get_timetable_data example_env 0 False [example_item 0 ''06:45'' ''card'' ''a'' None]
     = Inl KeyError
   \<and> get_timetable_data example_env 0 False [example_item 0 ''17:00'' ''card'' ''a'' None]
     = Inl KeyError
   \<and> get_timetable_data example_env 0 False [example_item 0 ''06:45'' ''event'' ''a'' None]
     = Inr \<lparr>ttdata = empty_grid,
            out_events = [\<lparr>date = 0, day_index = 0, time_index = 0, duration = 1,
              group_raw = ''a'', group = ''a'', name_ = None\<rparr>]\<rparr>
   \<and> get_timetable_data example_env 0 False [example_item 0 ''17:00'' ''event'' ''a'' None]
     = Inr \<lparr>ttdata = empty_grid,
            out_events = [\<lparr>date = 0, day_index = 0, time_index = 10, duration = - 1,
              group_raw = ''a'', group = ''a'', name_ = None\<rparr>]\<rparr>
   \<and> get_timetable_data example_env 0 False [example_item 0 ''09:17'' ''card'' ''a'' None]
     = Inr \<lparr>ttdata = empty_grid, out_events = []\<rparr>
   \<and> get_timetable_data example_env 0 False [example_item 0 ''09:17'' ''event'' ''a'' None]
     = Inr \<lparr>ttdata = empty_grid, out_events = []\<rparr>
   \<and> loop_body example_env 0 False (example_item 0 ''09:17'' ''card'' ''a'' None)
     = Inr \<lparr>data = [], events = [], logged = [''Unusual starttime encountered (09:17)'']\<rparr>"
  by (simp add: ex_body_early_card ex_body_late_card ex_body_early_event ex_body_late_event
        ex_body_unlisted grid_evals)

subsection \<open>The grid\<close>

lemma py_index_Inr:
  "py_index k n = Inr i \<Longrightarrow> i < n \<and> (k = int i \<or> k = int i - int n)"
  by (auto simp: py_index_def split: if_splits)

lemma dict_set_values:
  "(k', v') \<in> set (dict_set k v d) \<Longrightarrow> (k', v') \<in> set d \<or> (k', v') = (k, v)"
  by (induction d) (auto split: if_splits)

lemma days_init_empty:
  "\<forall>(k, v) \<in> set d. v = [] \<Longrightarrow>
   \<forall>(k, v) \<in> set (foldl (\<lambda>d x. dict_set (f x) [] d) d xs). v = []"
proof (induction xs arbitrary: d)
  case Nil
  then show ?case by simp
next
  case (Cons x xs)
  have "\<forall>(k, v) \<in> set (dict_set (f x) [] d). v = []"
    using Cons.prems by (auto dest: dict_set_values)
  from Cons.IH [OF this] show ?case by simp
qed

lemma days_append_keys:
  "\<forall>(k, v) \<in> set d. \<forall>e \<in> set v. f e = k \<Longrightarrow>
   \<forall>(k, v) \<in> set (foldl (\<lambda>d x. dict_append (f x) x d) d xs). \<forall>e \<in> set v. f e = k"
proof (induction xs arbitrary: d)
  case Nil
  then show ?case by simp
next
  case (Cons x xs)
  have "\<forall>(k, v) \<in> set (dict_append (f x) x d). \<forall>e \<in> set v. f e = k"
    using Cons.prems by (fastforce simp: dict_append_def split: if_splits)
  from Cons.IH [OF this] show ?case by simp
qed

lemma days_of_keys:
  "(idx, day) \<in> set (days_of xs) \<Longrightarrow> e \<in> set day \<Longrightarrow> day_index e = idx"
proof -
  have "\<forall>(k, v) \<in> set (foldl (\<lambda>d x. dict_set (day_index x) [] d) [] xs). v = []"
    by (rule days_init_empty) simp
  then have "\<forall>(k, v) \<in> set (foldl (\<lambda>d x. dict_set (day_index x) [] d) [] xs).
      \<forall>e \<in> set v. day_index e = k" by auto
  then have "\<forall>(k, v) \<in> set (days_of xs). \<forall>e \<in> set v. day_index e = k"
    unfolding days_of_def by (rule days_append_keys)
  then show "(idx, day) \<in> set (days_of xs) \<Longrightarrow> e \<in> set day \<Longrightarrow> day_index e = idx"
    by auto
qed

lemma groupby_keys:
  "(x, y) \<in> set (groupby f xs) \<Longrightarrow> e \<in> set y \<Longrightarrow> f e = x \<and> e \<in> set xs"
proof (induction f xs rule: groupby.induct)
  case (1 f)
  then show ?case by simp
next
  case (2 f a xs)
  from "2.prems"(1) consider "(x, y) = (f a, a # takeWhile (\<lambda>y. f y = f a) xs)"
    | "(x, y) \<in> set (groupby f (dropWhile (\<lambda>y. f y = f a) xs))" by auto
  then show ?case
  proof cases
    case 1
    with "2.prems"(2) show ?thesis by (auto dest: set_takeWhileD)
  next
    case 2
    from "2.IH" [OF this "2.prems"(2)] show ?thesis by (auto dest: set_dropWhileD)
  qed
qed

lemma grid_ok_update:
  assumes g: "grid_ok out" and i: "py_index idx (length out) = Inr i"
    and j: "py_index x (length (out ! i)) = Inr j"
    and y: "\<forall>e \<in> set y. day_index e = idx \<and> time_index e = x"
  shows "grid_ok (out[i := (out ! i)[j := y]])"
proof -
  from g have len: "length out = 5" and rows: "\<forall>row \<in> set out. length row = 11"
    and cells: "\<forall>i < 5. \<forall>j < 11. \<forall>e \<in> set (out ! i ! j). cell_ok i j e"
    by (simp_all add: grid_ok_def)
  from i len have i5: "i < 5" and pi: "py_index idx 5 = Inr i"
    by (auto dest: py_index_Inr)
  from i5 len rows have leni: "length (out ! i) = 11" by simp
  from j leni have j11: "j < 11" and pj: "py_index x 11 = Inr j"
    by (auto dest: py_index_Inr)
  let ?out = "out[i := (out ! i)[j := y]]"
  have "length ?out = 5" using len by simp
  moreover have "\<forall>row \<in> set ?out. length row = 11"
  proof
    fix row assume "row \<in> set ?out"
    then have "row \<in> insert ((out ! i)[j := y]) (set out)"
      using set_update_subset_insert by fastforce
    with rows leni show "length row = 11" by auto
  qed
  moreover have "\<forall>i' < 5. \<forall>j' < 11. \<forall>e \<in> set (?out ! i' ! j'). cell_ok i' j' e"
  proof (intro allI impI ballI)
    fix i' j' e assume i': "i' < (5::nat)" and j': "j' < (11::nat)" and e: "e \<in> set (?out ! i' ! j')"
    show "cell_ok i' j' e"
    proof (cases "i' = i \<and> j' = j")
      case True
      with e len leni i5 j11 have "e \<in> set y" by simp
      with y pi pj True show ?thesis by (simp add: cell_ok_def)
    next
      case False
      with e len leni i' j' i5 j11 have "e \<in> set (out ! i' ! j')"
        by (auto simp: nth_list_update split: if_splits)
      with cells i' j' show ?thesis by blast
    qed
  qed
  ultimately show ?thesis by (simp add: grid_ok_def)
qed

lemma fill_day_ok:
  "fill_day idx gs out = Inr out' \<Longrightarrow> grid_ok out
   \<Longrightarrow> \<forall>(x, y) \<in> set gs. \<forall>e \<in> set y. day_index e = idx \<and> time_index e = x
   \<Longrightarrow> grid_ok out'"
proof (induction gs arbitrary: out)
  case Nil
  then show ?case by simp
next
  case (Cons g gs)
  obtain x y where g: "g = (x, y)" by (cases g) auto
  from Cons.prems(1) g obtain i j where i: "py_index idx (length out) = Inr i"
    and j: "py_index x (length (out ! i)) = Inr j"
    and r: "fill_day idx gs (out[i := (out ! i)[j := y]]) = Inr out'"
    by (auto simp: bindE_Inr)
  from Cons.prems(3) g have y: "\<forall>e \<in> set y. day_index e = idx \<and> time_index e = x" by simp
  have "grid_ok (out[i := (out ! i)[j := y]])"
    using Cons.prems(2) i j y by (rule grid_ok_update)
  from Cons.IH [OF r this] Cons.prems(3) show ?case by simp
qed

lemma fill_days_ok:
  "fill_days ds out = Inr out' \<Longrightarrow> grid_ok out
   \<Longrightarrow> \<forall>(idx, day) \<in> set ds. \<forall>e \<in> set day. day_index e = idx
   \<Longrightarrow> grid_ok out'"
proof (induction ds arbitrary: out)
  case Nil
  then show ?case by simp
next
  case (Cons d ds)
  obtain idx day where d: "d = (idx, day)" by (cases d) auto
  from Cons.prems(1) d obtain out1 where
    f: "fill_day idx (groupby time_index day) out = Inr out1"
    and r: "fill_days ds out1 = Inr out'"
    by (auto simp: bindE_Inr)
  have "\<forall>(x, y) \<in> set (groupby time_index day). \<forall>e \<in> set y. day_index e = idx \<and> time_index e = x"
    using Cons.prems(3) d by (auto dest: groupby_keys)
  with f Cons.prems(2) have "grid_ok out1" by (rule fill_day_ok)
  from Cons.IH [OF r this] Cons.prems(3) show ?case by simp
qed

lemma grid_ok_initial: "grid_ok (replicate 5 (replicate 11 []))"
  by (auto simp: grid_ok_def)

lemma get_timetable_data_grid_ok:
  assumes "get_timetable_data env m w resp = Inr out"
  shows "grid_ok (ttdata out)"
proof -
  from assms obtain st :: "'a acc" where
    f: "fill_days (days_of (map religia (sort_key day_index (data st))))
          (replicate 5 (replicate 11 [])) = Inr (ttdata out)"
    by (auto simp: get_timetable_data_def bindE_Inr Let_def)
  have "\<forall>(idx, day) \<in> set (days_of (map religia (sort_key day_index (data st)))).
          \<forall>e \<in> set day. day_index e = idx"
    by (auto dest: days_of_keys)
  with f grid_ok_initial show ?thesis by (rule fill_days_ok)
qed

text \<open>
  C2, amended. The grid of every result has five rows of eleven cells. Every entry
  in a cell lies in no other cell, and the cell is the one that Python indexing
  reaches with the entry's own \<open>day_index\<close> and \<open>time_index\<close>: an index that
  is not negative is the index of the cell, and a negative \<open>day_index\<close> or
  \<open>time_index\<close> is the index of the cell minus 5 or minus 11.
\<close>

theorem grid_shape_and_positions:
  assumes "get_timetable_data env m w resp = Inr out"
  shows "length (ttdata out) = 5 \<and> (\<forall>row \<in> set (ttdata out). length row = 11)
    \<and> (\<forall>i < 5. \<forall>j < 11. \<forall>e \<in> set (ttdata out ! i ! j).
          (day_index e = int i \<or> day_index e = int i - 5)
        \<and> (time_index e = int j \<or> time_index e = int j - 11)
        \<and> (0 \<le> day_index e \<longrightarrow> day_index e = int i)
        \<and> (0 \<le> time_index e \<longrightarrow> time_index e = int j)
        \<and> (\<forall>i' < 5. \<forall>j' < 11. e \<in> set (ttdata out ! i' ! j') \<longrightarrow> i' = i \<and> j' = j))"
proof -
  from assms have g: "grid_ok (ttdata out)" by (rule get_timetable_data_grid_ok)
  then have cells: "\<And>i j e. i < 5 \<Longrightarrow> j < 11 \<Longrightarrow> e \<in> set (ttdata out ! i ! j) \<Longrightarrow> cell_ok i j e"
    by (simp add: grid_ok_def)
  have "\<forall>i < 5. \<forall>j < 11. \<forall>e \<in> set (ttdata out ! i ! j).
          (day_index e = int i \<or> day_index e = int i - 5)
        \<and> (time_index e = int j \<or> time_index e = int j - 11)
        \<and> (0 \<le> day_index e \<longrightarrow> day_index e = int i)
        \<and> (0 \<le> time_index e \<longrightarrow> time_index e = int j)
        \<and> (\<forall>i' < 5. \<forall>j' < 11. e \<in> set (ttdata out ! i' ! j') \<longrightarrow> i' = i \<and> j' = j)"
  proof (intro allI impI ballI)
    fix i j e assume i: "i < (5::nat)" and j: "j < (11::nat)" and e: "e \<in> set (ttdata out ! i ! j)"
    from cells [OF i j e] have c: "py_index (day_index e) 5 = Inr i"
      "py_index (time_index e) 11 = Inr j" by (simp_all add: cell_ok_def)
    have u: "\<forall>i' < 5. \<forall>j' < 11. e \<in> set (ttdata out ! i' ! j') \<longrightarrow> i' = i \<and> j' = j"
    proof (intro allI impI)
      fix i' j' assume "i' < (5::nat)" "j' < (11::nat)" "e \<in> set (ttdata out ! i' ! j')"
      then have "cell_ok i' j' e" by (rule cells)
      with c show "i' = i \<and> j' = j" by (simp add: cell_ok_def)
    qed
    from c i j have "(day_index e = int i \<or> day_index e = int i - 5)
        \<and> (time_index e = int j \<or> time_index e = int j - 11)
        \<and> (0 \<le> day_index e \<longrightarrow> day_index e = int i)
        \<and> (0 \<le> time_index e \<longrightarrow> time_index e = int j)"
      by (auto dest!: py_index_Inr)
    with u show "(day_index e = int i \<or> day_index e = int i - 5)
        \<and> (time_index e = int j \<or> time_index e = int j - 11)
        \<and> (0 \<le> day_index e \<longrightarrow> day_index e = int i)
        \<and> (0 \<le> time_index e \<longrightarrow> time_index e = int j)
        \<and> (\<forall>i' < 5. \<forall>j' < 11. e \<in> set (ttdata out ! i' ! j') \<longrightarrow> i' = i \<and> j' = j)"
      by blast
  qed
  with g show ?thesis by (simp add: grid_ok_def)
qed



lemma ex_body_lesson:
  "loop_body example_env 0 False (example_item d ''08:00'' ''card'' ''a'' None)
   = Inr \<lparr>data = [example_entry d d 1 ''a''], events = [], logged = []\<rparr>"
  by (simp add: item_evals string_evals group_evals)

theorem grid_shape_and_positions_witness:
  "get_timetable_data example_env 0 False [example_item 0 ''08:00'' ''card'' ''a'' None]
     = Inr \<lparr>ttdata =
         [[[], [example_entry 0 0 1 ''a''], [], [], [], [], [], [], [], [], []],
          [[], [], [], [], [], [], [], [], [], [], []],
          [[], [], [], [], [], [], [], [], [], [], []],
          [[], [], [], [], [], [], [], [], [], [], []],
          [[], [], [], [], [], [], [], [], [], [], []]], out_events = []\<rparr>
   \<and> day_index (example_entry 0 0 1 ''a'' :: unit ttentry) = 0
   \<and> time_index (example_entry 0 0 1 ''a'' :: unit ttentry) = 1"
proof -
  define e0 :: "unit ttentry" where "e0 = example_entry 0 0 1 ''a''"
  define g0 :: "unit ttentry list list list" where
    "g0 = [[[], [e0], [], [], [], [], [], [], [], [], []],
          [[], [], [], [], [], [], [], [], [], [], []],
          [[], [], [], [], [], [], [], [], [], [], []],
          [[], [], [], [], [], [], [], [], [], [], []],
          [[], [], [], [], [], [], [], [], [], [], []]]"
  define out0 :: "unit result" where "out0 = \<lparr>ttdata = g0, out_events = []\<rparr>"
  have g: "get_timetable_data example_env 0 False [example_item 0 ''08:00'' ''card'' ''a'' None]
     = Inr out0"
    unfolding out0_def g0_def e0_def by (simp add: ex_body_lesson grid_evals)
  have m: "e0 \<in> set (ttdata out0 ! 0 ! 1)" by (simp add: out0_def g0_def)
  note t = grid_shape_and_positions [OF g, THEN conjunct2, THEN conjunct2, rule_format, of 0 1 e0]
  have c: "(0 \<le> day_index e0 \<longrightarrow> day_index e0 = int 0)
         \<and> (0 \<le> time_index e0 \<longrightarrow> time_index e0 = int 1)"
    using t m by simp
  have n: "0 \<le> day_index e0" "0 \<le> time_index e0"
    by (simp_all add: e0_def example_entry_def)
  from c n have "day_index e0 = 0" "time_index e0 = 1" by simp_all
  with g show ?thesis unfolding out0_def g0_def e0_def by simp
qed


text \<open>
  C2, as stated, fails for a lesson dated the day before the Monday of the week: its
  \<open>day_index\<close> is \<open>-1\<close>, and \<^verbatim>\<open>output[-1]\<close> is the last row, of index 4.
\<close>

theorem negative_day_index_counterexample:
  "get_timetable_data example_env 0 False [example_item (- 1) ''08:00'' ''card'' ''a'' None]
     = Inr \<lparr>ttdata =
         [[[], [], [], [], [], [], [], [], [], [], []],
          [[], [], [], [], [], [], [], [], [], [], []],
          [[], [], [], [], [], [], [], [], [], [], []],
          [[], [], [], [], [], [], [], [], [], [], []],
          [[], [example_entry (- 1) (- 1) 1 ''a''], [], [], [], [], [], [], [], [], []]],
         out_events = []\<rparr>
   \<and> day_index (example_entry (- 1) (- 1) 1 ''a'' :: unit ttentry) = - 1"
  by (simp add: ex_body_lesson grid_evals)

subsection \<open>The order of the raw items\<close>

lemma loop_data:
  "loop env m w xs st = Inr st'
   \<Longrightarrow> data st' = data st @ concat (map (body_data env m w) xs)"
proof (induction xs arbitrary: st)
  case Nil
  then show ?case by simp
next
  case (Cons x xs)
  from Cons.prems obtain d where d: "loop_body env m w x = Inr d"
    and l: "loop env m w xs \<lparr>data = data st @ data d, events = events st @ events d,
          logged = logged st @ logged d\<rparr> = Inr st'"
    by (auto simp: bindE_Inr)
  from Cons.IH [OF l] d show ?case by (simp add: body_data_def)
qed

lemma loop_returns:
  "(\<exists>st'. loop env m w xs st = Inr st') \<longleftrightarrow> (\<forall>obj \<in> set xs. \<exists>d. loop_body env m w obj = Inr d)"
proof (induction xs arbitrary: st)
  case Nil
  then show ?case by simp
next
  case (Cons x xs)
  show ?case
  proof (cases "loop_body env m w x")
    case (Inl e)
    then show ?thesis by (simp add: bindE_def)
  next
    case (Inr d)
    with Cons.IH [of "\<lparr>data = data st @ data d, events = events st @ events d,
          logged = logged st @ logged d\<rparr>"] show ?thesis
      by (simp add: bindE_def)
  qed
qed

lemma card_entry_day:
  "card_entry env m w obj s t c p = Inr (e, l) \<Longrightarrow> day_index e = i_date obj - m"
  by (auto simp: card_entry_def Let_def bindE_Inr split: prod.splits)

lemma loop_body_day:
  "loop_body env m w obj = Inr d \<Longrightarrow> e \<in> set (data d) \<Longrightarrow> day_index e = i_date obj - m"
proof -
  assume b: "loop_body env m w obj = Inr d" and e: "e \<in> set (data d)"
  have "\<forall>s t c p l. card_entry env m w obj s t c p \<noteq> Inr (e, l) \<Longrightarrow> e \<notin> set (data d)"
    using b by (auto simp: loop_body_def bindE_Inr split: option.splits if_splits)
  with e obtain s t c p l where "card_entry env m w obj s t c p = Inr (e, l)" by blast
  then show ?thesis by (rule card_entry_day)
qed

lemma body_data_day:
  "e \<in> set (body_data env m w obj) \<Longrightarrow> day_index e = i_date obj - m"
  by (cases "loop_body env m w obj") (auto simp: body_data_def dest: loop_body_day)

lemma filter_body_data:
  "filter (\<lambda>e. day_index e = k) (concat (map (body_data env m w) xs))
   = concat (map (body_data env m w) (filter (\<lambda>obj. i_date obj = k + m) xs))"
proof (induction xs)
  case Nil
  then show ?case by simp
next
  case (Cons x xs)
  have "filter (\<lambda>e. day_index e = k) (body_data env m w x)
        = (if i_date x = k + m then body_data env m w x else [])"
    by (auto simp: filter_empty_conv filter_id_conv dest: body_data_day)
  with Cons.IH show ?case by simp
qed

lemma same_filters_same_set:
  assumes "\<And>d. filter (\<lambda>obj. f obj = d) xs = filter (\<lambda>obj. f obj = d) ys"
  shows "set xs = set ys"
proof -
  have "x \<in> set xs \<longleftrightarrow> x \<in> set ys" for x
  proof -
    have "x \<in> set xs \<longleftrightarrow> x \<in> set (filter (\<lambda>obj. f obj = f x) xs)" by simp
    also have "\<dots> \<longleftrightarrow> x \<in> set (filter (\<lambda>obj. f obj = f x) ys)" by (simp only: assms)
    also have "\<dots> \<longleftrightarrow> x \<in> set ys" by simp
    finally show ?thesis .
  qed
  then show ?thesis by blast
qed

lemma same_filters_same_mset:
  assumes "\<And>d. filter (\<lambda>x. f x = d) xs = filter (\<lambda>x. f x = d) ys"
  shows "mset xs = mset ys"
proof (rule multiset_eqI)
  fix x
  have "count (mset xs) x = count (mset (filter (\<lambda>y. f y = f x) xs)) x" by simp
  also have "\<dots> = count (mset (filter (\<lambda>y. f y = f x) ys)) x" by (simp only: assms)
  also have "\<dots> = count (mset ys) x" by simp
  finally show "count (mset xs) x = count (mset ys) x" .
qed

lemma sort_key_same_filters:
  assumes "\<And>d. filter (\<lambda>x. f x = d) xs = filter (\<lambda>x. f x = d) ys"
  shows "sort_key f xs = sort_key f ys"
proof (rule properties_for_sort_key)
  show "mset (sort_key f ys) = mset xs"
    using same_filters_same_mset [of f xs ys] assms by simp
  show "sorted (map f (sort_key f ys))" by simp
  fix k assume "k \<in> set (sort_key f ys)"
  have "filter (\<lambda>x. f k = f x) (sort_key f ys) = filter (\<lambda>x. f x = f k) (sort_key f ys)"
    by (rule filter_cong) auto
  also have "\<dots> = filter (\<lambda>x. f x = f k) ys" by (rule sort_key_stable)
  also have "\<dots> = filter (\<lambda>x. f x = f k) xs" by (simp only: assms)
  also have "\<dots> = filter (\<lambda>x. f k = f x) xs" by (rule filter_cong) auto
  finally show "filter (\<lambda>x. f k = f x) (sort_key f ys) = filter (\<lambda>x. f k = f x) xs" .
qed

lemma grid_of_result_eq:
  "grid_of_result (get_timetable_data env m w xs)
   = (if \<forall>obj \<in> set xs. \<exists>d. loop_body env m w obj = Inr d
      then (case fill_days (days_of (map religia (sort_key day_index
                  (concat (map (body_data env m w) xs))))) (replicate 5 (replicate 11 [])) of
              Inl e \<Rightarrow> None | Inr g \<Rightarrow> Some g)
      else None)"
proof (cases "loop env m w xs \<lparr>data = [], events = [], logged = []\<rparr>")
  case (Inl e)
  then have "\<not> (\<exists>st'. loop env m w xs \<lparr>data = [], events = [], logged = []\<rparr> = Inr st')"
    by simp
  then have "\<not> (\<forall>obj \<in> set xs. \<exists>d. loop_body env m w obj = Inr d)"
    using loop_returns [of env m w xs "\<lparr>data = [], events = [], logged = []\<rparr>"] by blast
  with Inl show ?thesis
    by (auto simp: get_timetable_data_def grid_of_result_def bindE_def)
next
  case (Inr st)
  then have "\<exists>st'. loop env m w xs \<lparr>data = [], events = [], logged = []\<rparr> = Inr st'" by blast
  then have ok: "\<forall>obj \<in> set xs. \<exists>d. loop_body env m w obj = Inr d"
    using loop_returns [of env m w xs "\<lparr>data = [], events = [], logged = []\<rparr>"] by blast
  from loop_data [OF Inr] have "data st = concat (map (body_data env m w) xs)" by simp
  with Inr ok show ?thesis
    by (simp add: get_timetable_data_def grid_of_result_def bindE_def Let_def split: sum.splits)
qed

lemma grid_same_day_order:
  assumes "\<And>d. filter (\<lambda>obj. i_date obj = d) xs = filter (\<lambda>obj. i_date obj = d) ys"
  shows "grid_of_result (get_timetable_data env m w xs)
       = grid_of_result (get_timetable_data env m w ys)"
proof -
  have s: "set xs = set ys" using assms by (rule same_filters_same_set)
  have d: "sort_key day_index (concat (map (body_data env m w) xs))
      = sort_key day_index (concat (map (body_data env m w) ys))"
    by (rule sort_key_same_filters) (simp add: filter_body_data assms)
  show ?thesis by (simp only: grid_of_result_eq s d)
qed

lemma filter_key_single:
  "distinct (map fst bs) \<Longrightarrow> rev (filter (\<lambda>p. fst p = d) bs) = filter (\<lambda>p. fst p = d) bs"
proof (induction bs)
  case Nil
  then show ?case by simp
next
  case (Cons b bs)
  show ?case
  proof (cases "fst b = d")
    case True
    with Cons.prems have "d \<notin> fst ` set bs" by simp
    then have "\<forall>p \<in> set bs. fst p \<noteq> d" by force
    then have "filter (\<lambda>p. fst p = d) bs = []"
      by (simp add: filter_empty_conv)
    with True show ?thesis by simp
  next
    case False
    with Cons show ?thesis by simp
  qed
qed

lemma filter_blocks:
  "\<forall>(d, items) \<in> set bs. \<forall>x \<in> set items. i_date x = d
   \<Longrightarrow> filter (\<lambda>obj. i_date obj = k) (concat (map snd bs))
       = concat (map snd (filter (\<lambda>p. fst p = k) bs))"
proof (induction bs)
  case Nil
  then show ?case by simp
next
  case (Cons b bs)
  obtain d items where b: "b = (d, items)" by (cases b) auto
  with Cons.prems have "\<forall>x \<in> set items. i_date x = d" by simp
  then have "filter (\<lambda>obj. i_date obj = k) items = (if d = k then items else [])"
    by (auto simp: filter_empty_conv filter_id_conv)
  with Cons b show ?case by simp
qed

text \<open>
  C3, amended. When the raw items come as blocks, one block for each day, feeding
  the blocks in reverse order gives the same grid, cell by cell, as feeding them in
  forward order, the items of a day keeping their order; and when one order raises,
  so does the other. The sort is stable and by day only, so the order of the items
  of one day is the order of the entries of its cells.
\<close>

theorem day_blocks_reversed:
  assumes "distinct (map fst blocks)"
    and "\<forall>(d, items) \<in> set blocks. \<forall>x \<in> set items. i_date x = d"
  shows "grid_of_result (get_timetable_data env m w (concat (map snd (rev blocks))))
       = grid_of_result (get_timetable_data env m w (concat (map snd blocks)))"
proof (rule grid_same_day_order)
  fix k
  from assms(2) have r: "\<forall>(d, items) \<in> set (rev blocks). \<forall>x \<in> set items. i_date x = d"
    by simp
  have "filter (\<lambda>obj. i_date obj = k) (concat (map snd (rev blocks)))
      = concat (map snd (filter (\<lambda>p. fst p = k) (rev blocks)))"
    using r by (rule filter_blocks)
  also have "filter (\<lambda>p. fst p = k) (rev blocks) = rev (filter (\<lambda>p. fst p = k) blocks)"
    by (simp add: rev_filter)
  also have "\<dots> = filter (\<lambda>p. fst p = k) blocks"
    using assms(1) by (rule filter_key_single)
  also have "concat (map snd (filter (\<lambda>p. fst p = k) blocks))
      = filter (\<lambda>obj. i_date obj = k) (concat (map snd blocks))"
    using assms(2) by (rule filter_blocks [symmetric])
  finally show "filter (\<lambda>obj. i_date obj = k) (concat (map snd (rev blocks)))
      = filter (\<lambda>obj. i_date obj = k) (concat (map snd blocks))" .
qed

lemma ex_body_lessons:
  "loop_body example_env 0 False (example_item d ''08:00'' ''card'' ''b'' None)
   = Inr \<lparr>data = [example_entry d d 1 ''b''], events = [], logged = []\<rparr>"
  "loop_body example_env 0 False (example_item d ''08:00'' ''card'' ''c'' None)
   = Inr \<lparr>data = [example_entry d d 1 ''c''], events = [], logged = []\<rparr>"
  by (simp_all add: item_evals string_evals group_evals)

text \<open>
  C3, as stated, fails for the reversal of the raw sequence: two lessons of the same
  day and period come out as \<open>[a, b]\<close> in forward order and as \<open>[b, a]\<close> in reverse
  order.
\<close>

theorem reverse_order_counterexample:
  "get_timetable_data example_env 0 False
     [example_item 0 ''08:00'' ''card'' ''a'' None,
      example_item 0 ''08:00'' ''card'' ''b'' None,
      example_item 1 ''08:00'' ''card'' ''c'' None]
   = Inr \<lparr>ttdata =
       [[[], [example_entry 0 0 1 ''a'', example_entry 0 0 1 ''b''], [], [], [], [], [], [], [], [], []],
        [[], [example_entry 1 1 1 ''c''], [], [], [], [], [], [], [], [], []],
        [[], [], [], [], [], [], [], [], [], [], []],
        [[], [], [], [], [], [], [], [], [], [], []],
        [[], [], [], [], [], [], [], [], [], [], []]], out_events = []\<rparr>
   \<and> get_timetable_data example_env 0 False
     (rev [example_item 0 ''08:00'' ''card'' ''a'' None,
           example_item 0 ''08:00'' ''card'' ''b'' None,
           example_item 1 ''08:00'' ''card'' ''c'' None])
   = Inr \<lparr>ttdata =
       [[[], [example_entry 0 0 1 ''b'', example_entry 0 0 1 ''a''], [], [], [], [], [], [], [], [], []],
        [[], [example_entry 1 1 1 ''c''], [], [], [], [], [], [], [], [], []],
        [[], [], [], [], [], [], [], [], [], [], []],
        [[], [], [], [], [], [], [], [], [], [], []],
        [[], [], [], [], [], [], [], [], [], [], []]], out_events = []\<rparr>
   \<and> grid_of_result (get_timetable_data example_env 0 False
     (rev [example_item 0 ''08:00'' ''card'' ''a'' None,
           example_item 0 ''08:00'' ''card'' ''b'' None,
           example_item 1 ''08:00'' ''card'' ''c'' None]))
     \<noteq> grid_of_result (get_timetable_data example_env 0 False
     [example_item 0 ''08:00'' ''card'' ''a'' None,
      example_item 0 ''08:00'' ''card'' ''b'' None,
      example_item 1 ''08:00'' ''card'' ''c'' None])"
  by (simp add: ex_body_lesson ex_body_lessons grid_evals sort_key_def grid_of_result_def)

theorem day_blocks_reversed_witness:
  "distinct (map fst [(0::int, [example_item 0 ''08:00'' ''card'' ''a'' None,
                         example_item 0 ''08:00'' ''card'' ''b'' None]),
                      (1, [example_item 1 ''08:00'' ''card'' ''c'' None])])
   \<and> list_all (\<lambda>(d, items). list_all (\<lambda>x. i_date x = d) items)
         [(0::int, [example_item 0 ''08:00'' ''card'' ''a'' None,
                    example_item 0 ''08:00'' ''card'' ''b'' None]),
          (1, [example_item 1 ''08:00'' ''card'' ''c'' None])]
   \<and> grid_of_result (get_timetable_data example_env 0 False
        [example_item 1 ''08:00'' ''card'' ''c'' None,
         example_item 0 ''08:00'' ''card'' ''a'' None,
         example_item 0 ''08:00'' ''card'' ''b'' None])
     = grid_of_result (get_timetable_data example_env 0 False
        [example_item 0 ''08:00'' ''card'' ''a'' None,
         example_item 0 ''08:00'' ''card'' ''b'' None,
         example_item 1 ''08:00'' ''card'' ''c'' None])"
proof -
  have h: "\<forall>(d, items) \<in> set [(0::int, [example_item 0 ''08:00'' ''card'' ''a'' None,
                                     example_item 0 ''08:00'' ''card'' ''b'' None]),
                                  (1, [example_item 1 ''08:00'' ''card'' ''c'' None])].
         \<forall>x \<in> set items. i_date x = d"
    by (simp add: example_item_def)
  have d: "distinct (map fst [(0::int, [example_item 0 ''08:00'' ''card'' ''a'' None,
                         example_item 0 ''08:00'' ''card'' ''b'' None]),
                      (1, [example_item 1 ''08:00'' ''card'' ''c'' None])])"
    by simp
  from day_blocks_reversed [OF d h, of example_env 0 False] d h show ?thesis
    by (simp add: list_all_iff)
qed


end
